theory Spec2Isabelle
  imports Main
begin

section \<open>Python values, exceptions and builtins used by the charm\<close>

text \<open>
  The charm (\<^verbatim>\<open>src/charm.py\<close>, class \<^verbatim>\<open>AmsOperatorCharm\<close>) reads dynamically typed
  configuration values. A configuration value is a Python \<^verbatim>\<open>bool\<close>, \<^verbatim>\<open>int\<close> or
  \<^verbatim>\<open>str\<close>; strings are byte lists, integers are unbounded. Floating point option
  values are not modelled.
\<close>

datatype pyval = PBool bool | PInt int | PStr string

text \<open>
  The exceptions the handlers can raise: \<^verbatim>\<open>KeyError\<close> from subscripting the
  configuration mapping with a key it does not hold, \<^verbatim>\<open>ValueError\<close> from
  \<^verbatim>\<open>int(...)\<close> on a string that is no integer literal, \<^verbatim>\<open>ModelError\<close> from
  \<^verbatim>\<open>self.unit.set_ports\<close> when the framework refuses the port (the value kept is that
  port), and the plain \<^verbatim>\<open>Exception(message)\<close> that \<^verbatim>\<open>_generate_selfsigned_cert\<close>
  raises.
\<close>

datatype error = KeyError string | ValueError string | ModelError int | Exception string

type_synonym 'a result = "error + 'a"

text \<open>Sequencing of two steps, the second of which runs only if the first did not raise.\<close>

definition and_then :: "'a result \<Rightarrow> ('a \<Rightarrow> 'b result) \<Rightarrow> 'b result" where
  "and_then r f = (case r of Inl e \<Rightarrow> Inl e | Inr v \<Rightarrow> f v)"

text \<open>\<^verbatim>\<open>self.config[key]\<close>: subscripting a mapping raises \<^verbatim>\<open>KeyError\<close> on a missing key.\<close>

definition lookup :: "(string \<rightharpoonup> pyval) \<Rightarrow> string \<Rightarrow> pyval result" where
  "lookup m k = (case m k of None \<Rightarrow> Inl (KeyError k) | Some v \<Rightarrow> Inr v)"

text \<open>Truth value of an object, as \<^verbatim>\<open>if x:\<close> and \<^verbatim>\<open>not x\<close> test it.\<close>

fun truthy :: "pyval \<Rightarrow> bool" where
  "truthy (PBool b) = b"
| "truthy (PInt n) = (n \<noteq> 0)"
| "truthy (PStr s) = (s \<noteq> [])"

text \<open>
  \<^verbatim>\<open>int(x)\<close>. A \<^verbatim>\<open>bool\<close> or \<^verbatim>\<open>int\<close> converts without error. A string is stripped of
  surrounding whitespace (space, tab, line feed, vertical tab, form feed, carriage return)
  and must then be an optional sign followed by decimal digits, where single underscores
  may stand between digits; anything else raises \<^verbatim>\<open>ValueError\<close>.

  This is what \<^verbatim>\<open>int\<close> does on the strings that \<open>short_ascii\<close> below accepts: ASCII
  strings of at most 4300 characters. Outside them \<^verbatim>\<open>int\<close> differs: it also reads
  the decimal digits and the whitespace of other scripts, and recent interpreters refuse a
  string of more than 4300 digits. Every statement below that depends on \<^verbatim>\<open>int\<close> of
  a string therefore assumes the string to be \<open>short_ascii\<close>.
\<close>

definition is_space :: "char \<Rightarrow> bool" where
  "is_space c = (c \<in> set [CHR '' '', CHR 0x09, CHR 0x0A, CHR 0x0B, CHR 0x0C, CHR 0x0D])"

definition short_ascii :: "string \<Rightarrow> bool" where
  "short_ascii s = (length s \<le> 4300 \<and> list_all (\<lambda>c. (of_char c :: nat) < 128) s)"

definition is_digit :: "char \<Rightarrow> bool" where
  "is_digit c = (48 \<le> (of_char c :: nat) \<and> (of_char c :: nat) \<le> 57)"

definition digit_value :: "char \<Rightarrow> nat" where
  "digit_value c = of_char c - 48"

definition strip :: "string \<Rightarrow> string" where
  "strip s = rev (dropWhile is_space (rev (dropWhile is_space s)))"

fun digits_value :: "nat \<Rightarrow> string \<Rightarrow> nat option" where
  "digits_value acc [] = None"
| "digits_value acc [c] = (if is_digit c then Some (10 * acc + digit_value c) else None)"
| "digits_value acc (c # d # ds) =
     (if is_digit c
      then (if d = CHR ''_'' then digits_value (10 * acc + digit_value c) ds
            else digits_value (10 * acc + digit_value c) (d # ds))
      else None)"

definition int_of_str :: "string \<Rightarrow> int option" where
  "int_of_str s =
     (case strip s of
        [] \<Rightarrow> None
      | c # cs \<Rightarrow>
          if c = CHR ''-'' then map_option (\<lambda>n. - int n) (digits_value 0 cs)
          else if c = CHR ''+'' then map_option int (digits_value 0 cs)
          else map_option int (digits_value 0 (c # cs)))"

fun py_int :: "pyval \<Rightarrow> int result" where
  "py_int (PBool b) = Inr (if b then 1 else 0)"
| "py_int (PInt n) = Inr n"
| "py_int (PStr s) = (case int_of_str s of None \<Rightarrow> Inl (ValueError s) | Some n \<Rightarrow> Inr n)"

text \<open>
  \<^verbatim>\<open>f"{x}"\<close>: the text a value is formatted to inside an f-string. A string stands for
  itself, an integer is written in decimal, a bool as \<^verbatim>\<open>True\<close> or \<^verbatim>\<open>False\<close>.
\<close>

fun decimal :: "nat \<Rightarrow> string" where
  "decimal n = (if n < 10 then [char_of (48 + n)] else decimal (n div 10) @ [char_of (48 + n mod 10)])"

definition str_of_int :: "int \<Rightarrow> string" where
  "str_of_int i = (if i < 0 then CHR ''-'' # decimal (nat (- i)) else decimal (nat i))"

fun py_str :: "pyval \<Rightarrow> string" where
  "py_str (PStr s) = s"
| "py_str (PInt n) = str_of_int n"
| "py_str (PBool b) = (if b then ''True'' else ''False'')"

text \<open>
  \<^verbatim>\<open>s.split(sep)\<close> with a one-character separator: the pieces of \<^verbatim>\<open>s\<close> between the
  separators. The result always has one piece more than \<^verbatim>\<open>s\<close> has separators, so it
  is never the empty list; the empty string splits into one empty piece.
\<close>

fun str_split :: "char \<Rightarrow> string \<Rightarrow> string list" where
  "str_split sep [] = [[]]"
| "str_split sep (c # cs) =
     (if c = sep then [] # str_split sep cs
      else (case str_split sep cs of
              [] \<Rightarrow> [[c]]
            | w # ws \<Rightarrow> (c # w) # ws))"

section \<open>Configuration objects of the managed service\<close>

text \<open>
  Modelled from the spec: the classes \<^verbatim>\<open>ETCDConfig\<close>, \<^verbatim>\<open>BackendConfig\<close>,
  \<^verbatim>\<open>PrometheusConfig\<close> and \<^verbatim>\<open>ServiceConfig\<close> are imported from the module
  \<^verbatim>\<open>ams\<close>, which is not among the sources. Each is a record of the keyword arguments
  the charm passes; a field holds the value it was given. \<^verbatim>\<open>ETCDConfig\<close> is built
  from \<^verbatim>\<open>use_embedded\<close> alone and then has no servers; line 79 assigns them. The
  fields \<^verbatim>\<open>ip\<close> and \<^verbatim>\<open>port\<close> of \<^verbatim>\<open>PrometheusConfig\<close> are named
  \<open>target_ip\<close> and \<open>target_port\<close> here, since \<^verbatim>\<open>ServiceConfig\<close> has fields of
  the same names.
\<close>

record ETCDConfig =
  use_embedded :: pyval
  servers :: "string list"

text \<open>
  Modelled from the spec: the property \<^verbatim>\<open>ETCDConfig.is_ready\<close> (module \<^verbatim>\<open>ams\<close>, not
  among the sources). The specification states it as: ready if and only if
  \<^verbatim>\<open>use_embedded\<close> is true or \<^verbatim>\<open>servers\<close> is non-empty.
\<close>

definition is_ready :: "ETCDConfig \<Rightarrow> bool" where
  "is_ready c = (truthy (use_embedded c) \<or> servers c \<noteq> [])"

record BackendConfig =
  port_range :: pyval
  lxd_project :: pyval
  force_tls12 :: pyval
  use_network_acl :: pyval
  metrics_server :: "string option"

record PrometheusConfig =
  target_ip :: string
  target_port :: int
  tls_cert_path :: pyval
  tls_key_path :: pyval
  basic_auth_username :: pyval
  basic_auth_password :: pyval
  extra_labels :: pyval
  metrics_path :: pyval

record ServiceConfig =
  ip :: string
  port :: int
  log_level :: pyval
  metrics :: PrometheusConfig
  backend :: BackendConfig
  store :: ETCDConfig

section \<open>Certificates\<close>

text \<open>
  Modelled from the spec: the functions \<^verbatim>\<open>generate_private_key\<close>, \<^verbatim>\<open>generate_ca\<close>,
  \<^verbatim>\<open>generate_csr\<close> and \<^verbatim>\<open>generate_certificate\<close> come from the library
  \<^verbatim>\<open>charms.tls_certificates_interface.v3.tls_certificates\<close>, which is not among the
  sources. Their results are symbolic: each artefact records what it was made from. A
  private key is identified by its size and by its number in the order of generation, so
  every call of \<^verbatim>\<open>generate_private_key\<close> yields a key no earlier call has yielded. A
  certificate authority records its key and subject; a signing request records the key
  it is for, its subject and its subject alternative names; a certificate records the
  request it answers, the authority it names as issuer and the key that signed it.
\<close>

datatype private_key = PrivateKey (key_size: nat) (key_number: nat)

datatype ca_certificate = CA (ca_key: private_key) (ca_subject: string)

datatype csr = CSR (csr_key: private_key) (csr_subject: string)
                   (sans_dns: "string list") (sans_ip: "string list")

datatype certificate = Certificate (cert_csr: csr) (cert_ca: ca_certificate)
                                   (signing_key: private_key)

definition generate_private_key :: "nat \<Rightarrow> nat \<Rightarrow> private_key \<times> nat" where
  "generate_private_key size_bits n = (PrivateKey size_bits n, Suc n)"

definition generate_ca :: "private_key \<Rightarrow> string \<Rightarrow> ca_certificate" where
  "generate_ca k subject = CA k subject"

definition generate_csr :: "private_key \<Rightarrow> string \<Rightarrow> string list \<Rightarrow> string list \<Rightarrow> csr" where
  "generate_csr k subject dns ips = CSR k subject dns ips"

definition generate_certificate :: "csr \<Rightarrow> ca_certificate \<Rightarrow> private_key \<Rightarrow> certificate" where
  "generate_certificate r ca k = Certificate r ca k"

text \<open>
  A certificate verifies against an authority when it names that authority as its issuer
  and was signed with that authority's key.
\<close>

definition verifies_against :: "certificate \<Rightarrow> ca_certificate \<Rightarrow> bool" where
  "verifies_against cert ca = (cert_ca cert = ca \<and> signing_key cert = ca_key ca)"

text \<open>
  \<^verbatim>\<open>_generate_selfsigned_cert(hostname, public_ip, private_ip)\<close>, lines 118 to 139. The
  last argument and the second component of the result count the private keys generated
  so far.
\<close>

definition generate_selfsigned_cert ::
  "string \<Rightarrow> string \<Rightarrow> string \<Rightarrow> nat \<Rightarrow> (certificate \<times> private_key) result \<times> nat" where
  "generate_selfsigned_cert hostname pub_ip priv_ip n =
     (if hostname = [] then (Inl (Exception ''A hostname is required''), n)
      else if pub_ip = [] then (Inl (Exception ''A public IP is required''), n)
      else if priv_ip = [] then (Inl (Exception ''A private IP is required''), n)
      else
        (let (ca_k, n1) = generate_private_key 4096 n;
             ca_cert = generate_ca ca_k hostname;
             (k, n2) = generate_private_key 4096 n1;
             req = generate_csr k hostname [pub_ip, priv_ip, hostname] [pub_ip, priv_ip];
             cert = generate_certificate req ca_cert ca_k
         in (Inr (cert, k), n2)))"

section \<open>The charm's surroundings and state\<close>

text \<open>
  What a handler reads from outside: the configuration mapping \<^verbatim>\<open>self.config\<close>, the
  etcd relation (\<^verbatim>\<open>self.etcd.is_available\<close> and the mapping \<^verbatim>\<open>self.etcd.get_config()\<close>
  returns), and the unit's addresses (the properties \<^verbatim>\<open>public_ip\<close> and \<^verbatim>\<open>private_ip\<close>).
\<close>

record env =
  config :: "string \<rightharpoonup> pyval"
  etcd_is_available :: bool
  etcd_get_config :: "string \<rightharpoonup> string"
  public_ip :: string
  private_ip :: string

datatype unit_status = ActiveStatus | BlockedStatus string | WaitingStatus string

text \<open>
  Modelled from the spec: the class \<^verbatim>\<open>AMS\<close> (module \<^verbatim>\<open>ams\<close>, not among the sources)
  drives the managed service. What the charm does to it is kept as the list of the calls
  made on \<^verbatim>\<open>self._snap\<close>, in the order they were made.
\<close>

datatype snap_call =
    Configure ServiceConfig
  | SetLocation pyval pyval
  | SetupLxd certificate private_key

text \<open>
  What a handler changes: the unit's status, the calls made on the managed service, the
  ports opened by \<^verbatim>\<open>self.unit.set_ports\<close> (which replaces the set of open ports), the
  unit's data on the relation of the event (the value under a key is the list that is
  written as a JSON array), and the number of private keys generated.
\<close>

record state =
  status :: unit_status
  snap_calls :: "snap_call list"
  ports :: "int list"
  relation_data :: "string \<rightharpoonup> certificate list"
  keys_generated :: nat

datatype outcome = Returned | Raised error

text \<open>
  \<^verbatim>\<open>self.unit.set_ports(n)\<close> with one integer: the framework closes the open ports
  other than \<^verbatim>\<open>n\<close> and then opens TCP port \<^verbatim>\<open>n\<close>, which it refuses with
  \<^verbatim>\<open>ModelError\<close> unless \<^verbatim>\<open>n\<close> lies between 1 and 65535.
\<close>

definition set_ports :: "int \<Rightarrow> state \<Rightarrow> outcome \<times> state" where
  "set_ports n s =
     (if 1 \<le> n \<and> n \<le> 65535 then (Returned, s\<lparr>ports := [n]\<rparr>)
      else (Raised (ModelError n), s\<lparr>ports := []\<rparr>))"

section \<open>The configuration-changed handler\<close>

text \<open>
  Lines 67 to 79: the store configuration. \<open>None\<close> stands for the two early returns
  that set the status to blocked.
\<close>

definition etcd_cfg :: "env \<Rightarrow> ETCDConfig option result" where
  "etcd_cfg e =
     and_then (lookup (config e) ''use_embedded_etcd'') (\<lambda>u.
       let c = \<lparr>use_embedded = u, servers = []\<rparr> in
       if \<not> is_ready c then
         (if \<not> etcd_is_available e then Inr None
          else
            (let svs = str_split CHR '','' (case etcd_get_config e ''connection_string'' of
                                              None \<Rightarrow> [] | Some s \<Rightarrow> s)
             in if svs = [] then Inr None
                else Inr (Some (c\<lparr>servers := svs\<rparr>))))
       else Inr (Some c))"

text \<open>Lines 80 to 87: the backend configuration.\<close>

definition backend_cfg :: "env \<Rightarrow> BackendConfig result" where
  "backend_cfg e =
     and_then (lookup (config e) ''port_range'') (\<lambda>pr.
     and_then (lookup (config e) ''lxd_project'') (\<lambda>lp.
     and_then (lookup (config e) ''force_tls12'') (\<lambda>ft.
     and_then (lookup (config e) ''use_network_acl'') (\<lambda>na.
       let b = \<lparr>port_range = pr, lxd_project = lp, force_tls12 = ft,
                use_network_acl = na, metrics_server = None\<rparr> in
       and_then (lookup (config e) ''metrics_server'') (\<lambda>ms.
         if truthy ms then
           and_then (lookup (config e) ''metrics_server'') (\<lambda>ms'.
             Inr (b\<lparr>metrics_server := Some (''influxdb:'' @ py_str ms')\<rparr>))
         else Inr b)))))"

text \<open>Lines 89 to 98: the configuration of the metrics endpoint.\<close>

definition metrics_cfg :: "env \<Rightarrow> PrometheusConfig result" where
  "metrics_cfg e =
     and_then (and_then (lookup (config e) ''prometheus_target_port'') py_int) (\<lambda>p.
     and_then (lookup (config e) ''prometheus_tls_cert_path'') (\<lambda>cp.
     and_then (lookup (config e) ''prometheus_tls_key_path'') (\<lambda>kp.
     and_then (lookup (config e) ''prometheus_basic_auth_username'') (\<lambda>un.
     and_then (lookup (config e) ''prometheus_basic_auth_password'') (\<lambda>pw.
     and_then (lookup (config e) ''prometheus_extra_labels'') (\<lambda>el.
     and_then (lookup (config e) ''prometheus_metrics_path'') (\<lambda>mp.
       Inr \<lparr>target_ip = private_ip e, target_port = p, tls_cert_path = cp,
            tls_key_path = kp, basic_auth_username = un, basic_auth_password = pw,
            extra_labels = el, metrics_path = mp\<rparr>)))))))"

text \<open>Lines 80 to 106: the service configuration for a store configuration that passed.\<close>

definition service_cfg :: "env \<Rightarrow> ETCDConfig \<Rightarrow> ServiceConfig result" where
  "service_cfg e st =
     and_then (backend_cfg e) (\<lambda>b.
     and_then (metrics_cfg e) (\<lambda>m.
     and_then (and_then (lookup (config e) ''port'') py_int) (\<lambda>p.
     and_then (lookup (config e) ''log_level'') (\<lambda>ll.
       Inr \<lparr>ip = private_ip e, port = p, log_level = ll,
            metrics = m, backend = b, store = st\<rparr>))))"

text \<open>
  Lines 107 to 110: the configuration is handed to the service, the port is opened and the
  unit made active.
\<close>

definition apply_cfg :: "env \<Rightarrow> ServiceConfig \<Rightarrow> state \<Rightarrow> outcome \<times> state" where
  "apply_cfg e cfg s =
     (let s1 = s\<lparr>snap_calls := snap_calls s @ [Configure cfg]\<rparr> in
      case and_then (lookup (config e) ''location'') (\<lambda>loc.
           and_then (lookup (config e) ''port'') (\<lambda>p. Inr (loc, p))) of
        Inl err \<Rightarrow> (Raised err, s1)
      | Inr (loc, p) \<Rightarrow>
          (let s2 = s1\<lparr>snap_calls := snap_calls s1 @ [SetLocation loc p]\<rparr> in
           case and_then (lookup (config e) ''port'') py_int of
             Inl err \<Rightarrow> (Raised err, s2)
           | Inr n \<Rightarrow>
               (case set_ports n s2 of
                  (Raised err, s3) \<Rightarrow> (Raised err, s3)
                | (Returned, s3) \<Rightarrow> (Returned, s3\<lparr>status := ActiveStatus\<rparr>))))"

text \<open>\<^verbatim>\<open>_on_config_changed\<close>, lines 65 to 110. The log message of line 75 is left out.\<close>

definition on_config_changed :: "env \<Rightarrow> state \<Rightarrow> outcome \<times> state" where
  "on_config_changed e s0 =
     (let s = s0\<lparr>status := WaitingStatus ''Configuring AMS''\<rparr> in
      case etcd_cfg e of
        Inl err \<Rightarrow> (Raised err, s)
      | Inr None \<Rightarrow> (Returned, s\<lparr>status := BlockedStatus ''Waiting for etcd''\<rparr>)
      | Inr (Some st) \<Rightarrow>
          (case service_cfg e st of
             Inl err \<Rightarrow> (Raised err, s)
           | Inr cfg \<Rightarrow> apply_cfg e cfg s))"

section \<open>The relation-joined handler\<close>

text \<open>\<^verbatim>\<open>_on_lxd_integrator_joined\<close>, lines 112 to 116.\<close>

definition on_lxd_integrator_joined :: "env \<Rightarrow> state \<Rightarrow> outcome \<times> state" where
  "on_lxd_integrator_joined e s =
     (case generate_selfsigned_cert (public_ip e) (public_ip e) (private_ip e)
             (keys_generated s) of
        (Inl err, n) \<Rightarrow> (Raised err, s\<lparr>keys_generated := n\<rparr>)
      | (Inr (cert, k), n) \<Rightarrow>
          (Returned,
           s\<lparr>keys_generated := n,
             snap_calls := snap_calls s @ [SetupLxd cert k],
             relation_data := (relation_data s)(''client_certificates'' \<mapsto> [cert])\<rparr>))"

section \<open>Well-formed configurations and sample inputs\<close>

text \<open>
  The keys \<^verbatim>\<open>_on_config_changed\<close> reads from \<^verbatim>\<open>self.config\<close> after the store step
  (lines 80 to 109).
\<close>

definition later_keys :: "string list" where
  "later_keys =
     [''port_range'', ''lxd_project'', ''force_tls12'', ''use_network_acl'',
      ''metrics_server'', ''prometheus_target_port'', ''prometheus_tls_cert_path'',
      ''prometheus_tls_key_path'', ''prometheus_basic_auth_username'',
      ''prometheus_basic_auth_password'', ''prometheus_extra_labels'',
      ''prometheus_metrics_path'', ''port'', ''log_level'', ''location'']"

text \<open>
  The two settings that go through \<^verbatim>\<open>int(...)\<close> are in its modelled domain when
  each of them, if it is a string, is \<open>short_ascii\<close>.
\<close>

definition setting_in_domain :: "env \<Rightarrow> string \<Rightarrow> bool" where
  "setting_in_domain e k = (case config e k of Some (PStr s) \<Rightarrow> short_ascii s | _ \<Rightarrow> True)"

definition in_domain :: "env \<Rightarrow> bool" where
  "in_domain e =
     (setting_in_domain e ''prometheus_target_port'' \<and> setting_in_domain e ''port'')"

text \<open>
  A configuration is readable when it is in that domain, holds each of the later keys,
  \<^verbatim>\<open>int(...)\<close> accepts the values of \<^verbatim>\<open>prometheus_target_port\<close> and \<^verbatim>\<open>port\<close>,
  and the port lies between 1 and 65535.
\<close>

definition readable :: "env \<Rightarrow> bool" where
  "readable e =
     (in_domain e
      \<and> list_all (\<lambda>k. config e k \<noteq> None) later_keys
      \<and> \<not> isl (and_then (lookup (config e) ''prometheus_target_port'') py_int)
      \<and> (case and_then (lookup (config e) ''port'') py_int of
            Inl err \<Rightarrow> False
          | Inr n \<Rightarrow> 1 \<le> n \<and> n \<le> 65535))"

text \<open>A complete configuration, a unit with two addresses, and a state to start from.\<close>

definition sample_config :: "(string \<times> pyval) list" where
  "sample_config =
     [(''use_embedded_etcd'', PBool True),
      (''port_range'', PStr ''10000-11000''),
      (''lxd_project'', PStr ''ams''),
      (''force_tls12'', PBool False),
      (''use_network_acl'', PBool True),
      (''metrics_server'', PStr []),
      (''prometheus_target_port'', PInt 9104),
      (''prometheus_tls_cert_path'', PStr []),
      (''prometheus_tls_key_path'', PStr []),
      (''prometheus_basic_auth_username'', PStr []),
      (''prometheus_basic_auth_password'', PStr []),
      (''prometheus_extra_labels'', PStr []),
      (''prometheus_metrics_path'', PStr ''/internal/1.0/metrics''),
      (''port'', PInt 8444),
      (''log_level'', PStr ''info''),
      (''location'', PStr [])]"

definition sample_env :: "(string \<rightharpoonup> pyval) \<Rightarrow> bool \<Rightarrow> (string \<rightharpoonup> string) \<Rightarrow> env" where
  "sample_env c a g =
     \<lparr>config = c, etcd_is_available = a, etcd_get_config = g,
      public_ip = ''1.2.3.4'', private_ip = ''10.0.0.1''\<rparr>"

definition idle :: state where
  "idle = \<lparr>status = ActiveStatus, snap_calls = [], ports = [],
           relation_data = Map.empty, keys_generated = 0\<rparr>"

text \<open>
  The service configuration the handler builds from the sample configuration for a given
  store configuration, and the state of a unit that has applied it with the embedded store.
\<close>

definition sample_service_cfg :: "ETCDConfig \<Rightarrow> ServiceConfig" where
  "sample_service_cfg st =
     \<lparr>ip = ''10.0.0.1'', port = 8444, log_level = PStr ''info'',
      metrics =
        \<lparr>target_ip = ''10.0.0.1'', target_port = 9104,
         tls_cert_path = PStr [], tls_key_path = PStr [],
         basic_auth_username = PStr [], basic_auth_password = PStr [],
         extra_labels = PStr [],
         metrics_path = PStr ''/internal/1.0/metrics''\<rparr>,
      backend =
        \<lparr>port_range = PStr ''10000-11000'', lxd_project = PStr ''ams'',
         force_tls12 = PBool False, use_network_acl = PBool True,
         metrics_server = None\<rparr>,
      store = st\<rparr>"

definition configured :: state where
  "configured =
     idle\<lparr>snap_calls :=
            [Configure (sample_service_cfg \<lparr>use_embedded = PBool True, servers = []\<rparr>),
             SetLocation (PStr []) (PInt 8444)],
          ports := [8444]\<rparr>"

section \<open>Auxiliary facts\<close>

lemma str_split_not_Nil: "str_split sep s \<noteq> []"
  by (induction s) (auto split: list.splits)

lemma generate_selfsigned_cert_value:
  assumes "hostname \<noteq> []" "pub_ip \<noteq> []" "priv_ip \<noteq> []"
  shows "generate_selfsigned_cert hostname pub_ip priv_ip n =
           (Inr (Certificate
                   (CSR (PrivateKey 4096 (Suc n)) hostname [pub_ip, priv_ip, hostname]
                        [pub_ip, priv_ip])
                   (CA (PrivateKey 4096 n) hostname) (PrivateKey 4096 n),
                 PrivateKey 4096 (Suc n)),
            Suc (Suc n))"
  using assms
  by (simp add: generate_selfsigned_cert_def generate_private_key_def generate_ca_def
      generate_csr_def generate_certificate_def)

lemma lookup_Some: "m k = Some v \<Longrightarrow> lookup m k = Inr v"
  by (simp add: lookup_def)

lemma lookup_None: "m k = None \<Longrightarrow> lookup m k = Inl (KeyError k)"
  by (simp add: lookup_def)

lemma and_then_Inr: "and_then (Inr v) f = f v"
  by (simp add: and_then_def)

lemma and_then_Inl: "and_then (Inl err) f = Inl err"
  by (simp add: and_then_def)

lemma backend_cfg_value:
  assumes "config e ''port_range'' = Some pr" "config e ''lxd_project'' = Some lp"
    "config e ''force_tls12'' = Some ft" "config e ''use_network_acl'' = Some na"
    "config e ''metrics_server'' = Some ms"
  shows "backend_cfg e =
           Inr \<lparr>port_range = pr, lxd_project = lp, force_tls12 = ft, use_network_acl = na,
                metrics_server = (if truthy ms then Some (''influxdb:'' @ py_str ms) else None)\<rparr>"
  using assms by (simp add: backend_cfg_def lookup_Some and_then_Inr)

lemma backend_cfg_absent:
  assumes "config e ''port_range'' = Some pr" "config e ''lxd_project'' = Some lp"
    "config e ''force_tls12'' = Some ft" "config e ''use_network_acl'' = Some na"
    "config e ''metrics_server'' = None"
  shows "backend_cfg e = Inl (KeyError ''metrics_server'')"
  using assms by (simp add: backend_cfg_def lookup_Some lookup_None and_then_Inr and_then_Inl)

lemma readable_backend:
  assumes "readable e"
  shows "\<exists>b. backend_cfg e = Inr b"
proof -
  from assms obtain pr lp ft na ms where
    "config e ''port_range'' = Some pr" "config e ''lxd_project'' = Some lp"
    "config e ''force_tls12'' = Some ft" "config e ''use_network_acl'' = Some na"
    "config e ''metrics_server'' = Some ms"
    by (auto simp: readable_def later_keys_def)
  then show ?thesis by (simp add: backend_cfg_value)
qed

lemma readable_port:
  assumes "readable e"
  shows "\<exists>v n. config e ''port'' = Some v \<and> py_int v = Inr n \<and> 1 \<le> n \<and> n \<le> 65535"
proof -
  from assms obtain v where v: "config e ''port'' = Some v"
    by (auto simp: readable_def later_keys_def)
  from assms have "case and_then (lookup (config e) ''port'') py_int of
                     Inl err \<Rightarrow> False | Inr n \<Rightarrow> 1 \<le> n \<and> n \<le> 65535"
    by (simp add: readable_def)
  with v have "case py_int v of Inl err \<Rightarrow> False | Inr n \<Rightarrow> 1 \<le> n \<and> n \<le> 65535"
    by (simp add: lookup_Some and_then_Inr)
  then obtain n where "py_int v = Inr n" "1 \<le> n" "n \<le> 65535"
    by (cases "py_int v") auto
  with v show ?thesis by blast
qed

lemma readable_metrics:
  assumes "readable e"
  shows "\<exists>m. metrics_cfg e = Inr m"
proof -
  from assms obtain v cp kp un pw el mp where k:
    "config e ''prometheus_target_port'' = Some v"
    "config e ''prometheus_tls_cert_path'' = Some cp"
    "config e ''prometheus_tls_key_path'' = Some kp"
    "config e ''prometheus_basic_auth_username'' = Some un"
    "config e ''prometheus_basic_auth_password'' = Some pw"
    "config e ''prometheus_extra_labels'' = Some el"
    "config e ''prometheus_metrics_path'' = Some mp"
    by (auto simp: readable_def later_keys_def)
  from assms have "\<not> isl (and_then (lookup (config e) ''prometheus_target_port'') py_int)"
    by (simp add: readable_def)
  with k(1) have "\<not> isl (py_int v)" by (simp add: lookup_Some and_then_Inr)
  then obtain n where "py_int v = Inr n" by (cases "py_int v") auto
  with k show ?thesis by (simp add: metrics_cfg_def lookup_Some and_then_Inr)
qed

lemma readable_service:
  assumes "readable e"
  shows "\<exists>cfg. service_cfg e st = Inr cfg \<and> store cfg = st \<and> ip cfg = private_ip e
           \<and> backend_cfg e = Inr (backend cfg) \<and> metrics_cfg e = Inr (metrics cfg)
           \<and> and_then (lookup (config e) ''port'') py_int = Inr (port cfg)"
proof -
  from readable_backend [OF assms] obtain b where b: "backend_cfg e = Inr b" ..
  from readable_metrics [OF assms] obtain m where m: "metrics_cfg e = Inr m" ..
  from readable_port [OF assms] obtain v n where
    p: "config e ''port'' = Some v" "py_int v = Inr n" by blast
  from assms obtain ll where ll: "config e ''log_level'' = Some ll"
    by (auto simp: readable_def later_keys_def)
  show ?thesis
    by (simp add: service_cfg_def b m p ll lookup_Some and_then_Inr)
qed

lemma readable_apply:
  assumes "readable e" "and_then (lookup (config e) ''port'') py_int = Inr n"
  shows "\<exists>loc p. config e ''location'' = Some loc \<and> config e ''port'' = Some p
           \<and> apply_cfg e cfg s =
               (Returned, s\<lparr>snap_calls := snap_calls s @ [Configure cfg, SetLocation loc p],
                            ports := [n], status := ActiveStatus\<rparr>)"
proof -
  from readable_port [OF assms(1)] obtain v n' where
    p: "config e ''port'' = Some v" "py_int v = Inr n'" and r: "1 \<le> n'" "n' \<le> 65535"
    by blast
  with assms(2) have n: "n' = n" by (simp add: lookup_Some and_then_Inr)
  from assms obtain loc where loc: "config e ''location'' = Some loc"
    by (auto simp: readable_def later_keys_def)
  show ?thesis
    using n r by (simp add: apply_cfg_def set_ports_def p loc lookup_Some and_then_Inr)
qed

lemma on_config_changed_ready:
  assumes "etcd_cfg e = Inr (Some st)" "readable e"
  shows "\<exists>cfg loc p. store cfg = st \<and> service_cfg e st = Inr cfg
           \<and> config e ''location'' = Some loc \<and> config e ''port'' = Some p
           \<and> on_config_changed e s =
               (Returned, s\<lparr>snap_calls := snap_calls s @ [Configure cfg, SetLocation loc p],
                            ports := [port cfg], status := ActiveStatus\<rparr>)"
proof -
  from readable_service [OF assms(2)] obtain cfg where
    c: "service_cfg e st = Inr cfg" "store cfg = st"
       "and_then (lookup (config e) ''port'') py_int = Inr (port cfg)" by blast
  let ?s = "s\<lparr>status := WaitingStatus ''Configuring AMS''\<rparr>"
  from readable_apply [OF assms(2) c(3)] obtain loc p where
    a: "config e ''location'' = Some loc" "config e ''port'' = Some p"
       "apply_cfg e cfg ?s =
          (Returned, ?s\<lparr>snap_calls := snap_calls ?s @ [Configure cfg, SetLocation loc p],
                        ports := [port cfg], status := ActiveStatus\<rparr>)" by blast
  have "on_config_changed e s = apply_cfg e cfg ?s"
    by (simp add: on_config_changed_def assms(1) c(1))
  with a c show ?thesis by auto
qed

lemma on_config_changed_blocked:
  assumes "etcd_cfg e = Inr None"
  shows "on_config_changed e s = (Returned, s\<lparr>status := BlockedStatus ''Waiting for etcd''\<rparr>)"
  by (simp add: on_config_changed_def assms)

lemma sample_readable:
  "readable (sample_env ((map_of sample_config)(''use_embedded_etcd'' \<mapsto> u)) a g)"
  by (simp add: readable_def in_domain_def setting_in_domain_def later_keys_def
      sample_env_def sample_config_def lookup_def and_then_def)

lemma sample_readable_plain: "readable (sample_env (map_of sample_config) a g)"
  by (simp add: readable_def in_domain_def setting_in_domain_def later_keys_def
      sample_env_def sample_config_def lookup_def and_then_def)

lemma etcd_cfg_embedded:
  assumes "config e ''use_embedded_etcd'' = Some u" "truthy u"
  shows "etcd_cfg e = Inr (Some \<lparr>use_embedded = u, servers = []\<rparr>)"
  using assms by (simp add: etcd_cfg_def lookup_Some and_then_Inr is_ready_def)

lemma etcd_cfg_unavailable:
  assumes "config e ''use_embedded_etcd'' = Some u" "\<not> truthy u" "\<not> etcd_is_available e"
  shows "etcd_cfg e = Inr None"
  using assms by (simp add: etcd_cfg_def lookup_Some and_then_Inr is_ready_def)

lemma etcd_cfg_available:
  assumes "config e ''use_embedded_etcd'' = Some u" "\<not> truthy u" "etcd_is_available e"
  shows "etcd_cfg e =
           Inr (Some \<lparr>use_embedded = u,
                      servers = str_split CHR '','' (case etcd_get_config e ''connection_string'' of
                                                      None \<Rightarrow> [] | Some cs \<Rightarrow> cs)\<rparr>)"
  using assms
  by (simp add: etcd_cfg_def lookup_Some and_then_Inr is_ready_def Let_def str_split_not_Nil)

lemma etcd_cfg_total:
  assumes "config e ''use_embedded_etcd'' \<noteq> None"
  shows "\<exists>r. etcd_cfg e = Inr r"
proof -
  from assms obtain u where u: "config e ''use_embedded_etcd'' = Some u" by auto
  show ?thesis
  proof (cases "truthy u")
    case True
    with u show ?thesis by (simp add: etcd_cfg_embedded)
  next
    case False
    with u show ?thesis
      by (cases "etcd_is_available e") (simp_all add: etcd_cfg_available etcd_cfg_unavailable)
  qed
qed

lemma on_config_changed_bad_port:
  assumes "etcd_cfg e = Inr (Some st)" "backend_cfg e = Inr b" "metrics_cfg e = Inr m"
    "config e ''port'' = Some (PStr x)" "int_of_str x = None"
  shows "on_config_changed e s =
           (Raised (ValueError x), s\<lparr>status := WaitingStatus ''Configuring AMS''\<rparr>)"
  using assms
  by (simp add: on_config_changed_def service_cfg_def lookup_Some and_then_Inr and_then_Inl)

lemma on_config_changed_bad_target_port:
  assumes "etcd_cfg e = Inr (Some st)" "backend_cfg e = Inr b"
    "config e ''prometheus_target_port'' = Some (PStr x)" "int_of_str x = None"
  shows "on_config_changed e s =
           (Raised (ValueError x), s\<lparr>status := WaitingStatus ''Configuring AMS''\<rparr>)"
  using assms
  by (simp add: on_config_changed_def service_cfg_def metrics_cfg_def lookup_Some
      and_then_Inr and_then_Inl)

lemma service_cfg_port:
  assumes "service_cfg e st = Inr cfg"
  shows "and_then (lookup (config e) ''port'') py_int = Inr (port cfg)"
  using assms by (auto simp: service_cfg_def and_then_def split: sum.splits)

lemma on_config_changed_port_refused:
  assumes "etcd_cfg e = Inr (Some st)" "service_cfg e st = Inr cfg"
    "config e ''location'' = Some loc" "config e ''port'' = Some p"
    "\<not> (1 \<le> port cfg \<and> port cfg \<le> 65535)"
  shows "on_config_changed e s =
           (Raised (ModelError (port cfg)),
            s\<lparr>status := WaitingStatus ''Configuring AMS'',
              snap_calls := snap_calls s @ [Configure cfg, SetLocation loc p],
              ports := []\<rparr>)"
proof -
  from service_cfg_port [OF assms(2)] assms(4)
  have i: "py_int p = Inr (port cfg)" by (simp add: lookup_Some and_then_Inr)
  let ?s = "s\<lparr>status := WaitingStatus ''Configuring AMS''\<rparr>"
  from assms(5) consider "\<not> 1 \<le> port cfg" | "\<not> port cfg \<le> 65535"
    by blast
  then have "apply_cfg e cfg ?s =
          (Raised (ModelError (port cfg)),
           ?s\<lparr>snap_calls := snap_calls ?s @ [Configure cfg, SetLocation loc p], ports := []\<rparr>)"
    by cases
       (simp_all add: apply_cfg_def set_ports_def assms(3,4) i lookup_Some and_then_Inr)
  then show ?thesis
    by (simp add: on_config_changed_def assms(1,2))
qed

lemma store_unavailable_blocks:
  assumes "config e ''use_embedded_etcd'' = Some u" "\<not> truthy u" "\<not> etcd_is_available e"
  shows "on_config_changed e s = (Returned, s\<lparr>status := BlockedStatus ''Waiting for etcd''\<rparr>)"
  using assms by (simp add: etcd_cfg_unavailable on_config_changed_blocked)

section \<open>The store step of the configuration-changed handler\<close>

text \<open>
  Claim C1. The specification asks that, with \<^verbatim>\<open>use_embedded_etcd\<close> false, etcd available
  and an empty connection string, the run ends blocked and no server list holding an empty
  string is stored. The handler does otherwise: \<^verbatim>\<open>"".split(",")\<close> is the one-element
  list of the empty string, the test \<^verbatim>\<open>if not servers\<close> of line 76 does not fire,
  and the run goes on to configure the service with \<open>servers = ['''']\<close> and to set the
  status active. The theorem evaluates the handler at that input.
\<close>

theorem empty_connection_string_configures:
  "on_config_changed
     (sample_env ((map_of sample_config)(''use_embedded_etcd'' \<mapsto> PBool False)) True
        [''connection_string'' \<mapsto> []])
     idle =
   (Returned,
    idle\<lparr>snap_calls :=
           [Configure
              \<lparr>ip = ''10.0.0.1'', port = 8444, log_level = PStr ''info'',
               metrics =
                 \<lparr>target_ip = ''10.0.0.1'', target_port = 9104,
                  tls_cert_path = PStr [], tls_key_path = PStr [],
                  basic_auth_username = PStr [], basic_auth_password = PStr [],
                  extra_labels = PStr [],
                  metrics_path = PStr ''/internal/1.0/metrics''\<rparr>,
               backend =
                 \<lparr>port_range = PStr ''10000-11000'', lxd_project = PStr ''ams'',
                  force_tls12 = PBool False, use_network_acl = PBool True,
                  metrics_server = None\<rparr>,
               store = \<lparr>use_embedded = PBool False, servers = [[]]\<rparr>\<rparr>,
            SetLocation (PStr []) (PInt 8444)],
         ports := [8444], status := ActiveStatus\<rparr>)"
  by (simp add: on_config_changed_def etcd_cfg_def is_ready_def service_cfg_def
      backend_cfg_def metrics_cfg_def apply_cfg_def set_ports_def lookup_def and_then_def
      sample_env_def sample_config_def idle_def)

text \<open>
  Claim C5. A store configuration is ready if and only if \<^verbatim>\<open>use_embedded\<close> is true or
  \<^verbatim>\<open>servers\<close> is non-empty; so one with \<^verbatim>\<open>use_embedded\<close> true is ready whatever its
  servers. When the setting \<^verbatim>\<open>use_embedded_etcd\<close> is true, the handler takes the store
  configuration as it is, with no servers, and its whole result is the same for every
  availability of etcd and every content of the etcd relation: neither is consulted.
\<close>

theorem is_ready_embedded:
  "(is_ready c \<longleftrightarrow> truthy (use_embedded c) \<or> servers c \<noteq> [])
   \<and> (use_embedded c = PBool True \<longrightarrow> is_ready c)
   \<and> (config e ''use_embedded_etcd'' = Some (PBool True) \<longrightarrow>
        etcd_cfg (e\<lparr>etcd_is_available := a, etcd_get_config := g\<rparr>)
          = Inr (Some \<lparr>use_embedded = PBool True, servers = []\<rparr>)
        \<and> on_config_changed (e\<lparr>etcd_is_available := a, etcd_get_config := g\<rparr>) s
            = on_config_changed e s)"
proof (intro conjI impI)
  show "is_ready c \<longleftrightarrow> truthy (use_embedded c) \<or> servers c \<noteq> []"
    by (simp add: is_ready_def)
  show "is_ready c" if "use_embedded c = PBool True"
    using that by (simp add: is_ready_def)
next
  assume u: "config e ''use_embedded_etcd'' = Some (PBool True)"
  let ?e = "e\<lparr>etcd_is_available := a, etcd_get_config := g\<rparr>"
  have 1: "etcd_cfg e = Inr (Some \<lparr>use_embedded = PBool True, servers = []\<rparr>)"
    using u by (simp add: etcd_cfg_embedded)
  show 2: "etcd_cfg ?e = Inr (Some \<lparr>use_embedded = PBool True, servers = []\<rparr>)"
    using u by (simp add: etcd_cfg_embedded)
  have c: "config ?e = config e" "private_ip ?e = private_ip e"
    by simp_all
  have 3: "service_cfg ?e st = service_cfg e st" for st
    unfolding service_cfg_def backend_cfg_def metrics_cfg_def c by (rule refl)
  have 4: "apply_cfg ?e cfg s' = apply_cfg e cfg s'" for cfg s'
    unfolding apply_cfg_def c by (rule refl)
  show "on_config_changed ?e s = on_config_changed e s"
    unfolding on_config_changed_def 1 2 3 4 by (rule refl)
qed

theorem is_ready_embedded_witness:
  "on_config_changed (sample_env (map_of sample_config) False Map.empty) idle
     = on_config_changed (sample_env (map_of sample_config) True [''connection_string'' \<mapsto> ''a,b'']) idle
   \<and> etcd_cfg (sample_env (map_of sample_config) False Map.empty)
       = Inr (Some \<lparr>use_embedded = PBool True, servers = []\<rparr>)
   \<and> is_ready \<lparr>use_embedded = PBool True, servers = []\<rparr>"
proof -
  let ?e = "sample_env (map_of sample_config) True [''connection_string'' \<mapsto> ''a,b'']"
  have u: "config ?e ''use_embedded_etcd'' = Some (PBool True)"
    by (simp add: sample_env_def sample_config_def)
  have e: "?e\<lparr>etcd_is_available := False, etcd_get_config := Map.empty\<rparr>
             = sample_env (map_of sample_config) False Map.empty"
    by (simp add: sample_env_def)
  from is_ready_embedded [where c = "\<lparr>use_embedded = PBool True, servers = []\<rparr>"
          and e = ?e and a = False and g = Map.empty and s = idle] u
  show ?thesis unfolding e by simp
qed

text \<open>
  Claim C6, amended. With \<^verbatim>\<open>use_embedded_etcd\<close> false, etcd available and a connection
  string \<open>cs\<close>, the store configuration gets the pieces of \<open>cs\<close> between the commas as
  its servers and is ready; for \<^verbatim>\<open>"a,b,c"\<close> these are \<^verbatim>\<open>["a", "b", "c"]\<close>. If in
  addition the rest of the configuration is readable (every later key is present,
  \<^verbatim>\<open>int(...)\<close> accepts both port settings, which are short ASCII where they are
  strings, and the port lies between 1 and 65535), the handler configures the service with
  a \<^verbatim>\<open>ServiceConfig\<close> holding this store configuration and sets the status active.
\<close>

theorem connection_string_servers:
  assumes "config e ''use_embedded_etcd'' = Some u" "\<not> truthy u" "etcd_is_available e"
    "etcd_get_config e ''connection_string'' = Some cs"
  shows "etcd_cfg e = Inr (Some \<lparr>use_embedded = u, servers = str_split CHR '','' cs\<rparr>)
     \<and> is_ready \<lparr>use_embedded = u, servers = str_split CHR '','' cs\<rparr>
     \<and> str_split CHR '','' ''a,b,c'' = [''a'', ''b'', ''c'']
     \<and> (readable e \<longrightarrow>
          (\<exists>cfg loc p.
             store cfg = \<lparr>use_embedded = u, servers = str_split CHR '','' cs\<rparr>
             \<and> on_config_changed e s =
                 (Returned, s\<lparr>snap_calls := snap_calls s @ [Configure cfg, SetLocation loc p],
                              ports := [port cfg], status := ActiveStatus\<rparr>)))"
proof -
  let ?st = "\<lparr>use_embedded = u, servers = str_split CHR '','' cs\<rparr>"
  have 1: "etcd_cfg e = Inr (Some ?st)"
    using assms by (simp add: etcd_cfg_available)
  have 2: "is_ready ?st"
    by (simp add: is_ready_def str_split_not_Nil)
  have 3: "str_split CHR '','' ''a,b,c'' = [''a'', ''b'', ''c'']"
    by simp
  have 4: "\<exists>cfg loc p.
             store cfg = ?st
             \<and> on_config_changed e s =
                 (Returned, s\<lparr>snap_calls := snap_calls s @ [Configure cfg, SetLocation loc p],
                              ports := [port cfg], status := ActiveStatus\<rparr>)"
    if r: "readable e"
  proof -
    from on_config_changed_ready [OF 1 r, of s] obtain cfg loc p where
      "store cfg = ?st"
      "on_config_changed e s =
         (Returned, s\<lparr>snap_calls := snap_calls s @ [Configure cfg, SetLocation loc p],
                      ports := [port cfg], status := ActiveStatus\<rparr>)"
      by (elim exE conjE)
    then show ?thesis by (intro exI conjI)
  qed
  show ?thesis
    apply (intro conjI impI)
       apply (rule 1)
      apply (rule 2)
     apply (rule 3)
    apply (erule 4)
    done
qed

theorem connection_string_servers_witness:
  "etcd_cfg (sample_env ((map_of sample_config)(''use_embedded_etcd'' \<mapsto> PBool False)) True
              [''connection_string'' \<mapsto> ''a,b,c''])
     = Inr (Some \<lparr>use_embedded = PBool False, servers = [''a'', ''b'', ''c'']\<rparr>)
   \<and> is_ready \<lparr>use_embedded = PBool False, servers = [''a'', ''b'', ''c'']\<rparr>
   \<and> (\<exists>cfg loc p.
        store cfg = \<lparr>use_embedded = PBool False, servers = [''a'', ''b'', ''c'']\<rparr>
        \<and> on_config_changed
            (sample_env ((map_of sample_config)(''use_embedded_etcd'' \<mapsto> PBool False)) True
               [''connection_string'' \<mapsto> ''a,b,c'']) idle =
            (Returned, idle\<lparr>snap_calls := snap_calls idle @ [Configure cfg, SetLocation loc p],
                            ports := [port cfg], status := ActiveStatus\<rparr>))"
proof -
  let ?e = "sample_env ((map_of sample_config)(''use_embedded_etcd'' \<mapsto> PBool False)) True
              [''connection_string'' \<mapsto> ''a,b,c'']"
  have h: "config ?e ''use_embedded_etcd'' = Some (PBool False)" "\<not> truthy (PBool False)"
    "etcd_is_available ?e" "etcd_get_config ?e ''connection_string'' = Some ''a,b,c''"
    by (simp_all add: sample_env_def)
  have r: "readable ?e" by (rule sample_readable)
  from connection_string_servers [OF h, of idle] r show ?thesis by simp
qed

text \<open>
  Claim C6, as stated, fails in its last part: the three conditions on the store do not
  make the run produce a \<^verbatim>\<open>ServiceConfig\<close>. Here they hold and \<^verbatim>\<open>port\<close> is
  \<^verbatim>\<open>"abc"\<close>: the servers are \<^verbatim>\<open>["a", "b", "c"]\<close>, and the run then raises
  \<^verbatim>\<open>ValueError\<close> at line 101 with nothing applied.
\<close>

theorem connection_string_then_port_raises:
  "etcd_cfg
     (sample_env ((map_of sample_config)(''use_embedded_etcd'' \<mapsto> PBool False,
                                         ''port'' \<mapsto> PStr ''abc''))
        True [''connection_string'' \<mapsto> ''a,b,c''])
     = Inr (Some \<lparr>use_embedded = PBool False, servers = [''a'', ''b'', ''c'']\<rparr>)
   \<and> on_config_changed
       (sample_env ((map_of sample_config)(''use_embedded_etcd'' \<mapsto> PBool False,
                                           ''port'' \<mapsto> PStr ''abc''))
          True [''connection_string'' \<mapsto> ''a,b,c''])
       idle =
     (Raised (ValueError ''abc''), idle\<lparr>status := WaitingStatus ''Configuring AMS''\<rparr>)"
  by (simp add: on_config_changed_def etcd_cfg_def is_ready_def service_cfg_def
      backend_cfg_def metrics_cfg_def lookup_def and_then_def
      sample_env_def sample_config_def idle_def int_of_str_def strip_def is_space_def
      is_digit_def)

text \<open>
  Claim C7. The specification counts two runs as not ready, both with a store
  configuration that is not ready: the run that finds etcd unavailable, and the run that
  resolves no servers. Such a run must end blocked and apply nothing. The first does
  (\<open>store_unavailable_blocks\<close> above). The second does not: with etcd available and no
  connection string, \<^verbatim>\<open>.get("connection_string", "")\<close> gives the empty string, its
  split is the one-element list of the empty string, the test of line 76 does not fire,
  and the run replaces the configuration applied before by one with \<open>servers = ['''']\<close>
  and sets the status active. The theorem evaluates the handler there, starting from a
  configured unit.
\<close>

theorem no_servers_run_configures:
  "on_config_changed
     (sample_env ((map_of sample_config)(''use_embedded_etcd'' \<mapsto> PBool False)) True Map.empty)
     configured =
   (Returned,
    configured
      \<lparr>snap_calls :=
         snap_calls configured
         @ [Configure (sample_service_cfg \<lparr>use_embedded = PBool False, servers = [[]]\<rparr>),
            SetLocation (PStr []) (PInt 8444)],
       ports := [8444], status := ActiveStatus\<rparr>)"
  by (simp add: on_config_changed_def etcd_cfg_def is_ready_def service_cfg_def
      backend_cfg_def metrics_cfg_def apply_cfg_def set_ports_def lookup_def and_then_def
      sample_env_def sample_config_def sample_service_cfg_def configured_def idle_def)

section \<open>Outcomes of the configuration-changed handler\<close>

text \<open>
  Claim C2, as stated, fails: the handler itself converts the two port settings with
  \<^verbatim>\<open>int(...)\<close> (lines 91, 101 and 109), and a port string that is no integer literal
  makes it raise \<^verbatim>\<open>ValueError\<close>. Here the store is embedded and \<^verbatim>\<open>port\<close> is
  \<^verbatim>\<open>"abc"\<close>: the run raises, with the status left at waiting and no call made on the
  service.
\<close>

theorem malformed_port_raises:
  "on_config_changed
     (sample_env ((map_of sample_config)(''port'' \<mapsto> PStr ''abc'')) False Map.empty) idle =
   (Raised (ValueError ''abc''), idle\<lparr>status := WaitingStatus ''Configuring AMS''\<rparr>)"
  by (simp add: on_config_changed_def etcd_cfg_def is_ready_def service_cfg_def
      backend_cfg_def metrics_cfg_def apply_cfg_def lookup_def and_then_def
      sample_env_def sample_config_def idle_def int_of_str_def strip_def is_space_def
      is_digit_def)

text \<open>
  Claim C2, amended. Let the two port settings, where they are strings, be ASCII strings
  of at most 4300 characters. For a configuration that holds \<^verbatim>\<open>use_embedded_etcd\<close> and
  is readable (every later key is present, \<^verbatim>\<open>int(...)\<close> accepts both port settings and
  the port lies between 1 and 65535) the run has two outcomes only: it returns blocked, or
  it returns having configured the service with a \<^verbatim>\<open>ServiceConfig\<close> and set the status
  active. The conversion is the handler's own. When the store step passes and the backend
  configuration is built, a \<^verbatim>\<open>prometheus_target_port\<close> string that is no integer
  literal makes the run raise \<^verbatim>\<open>ValueError\<close>; when the metrics configuration is built
  as well, so does such a \<^verbatim>\<open>port\<close> string; both leave the status at waiting and
  nothing applied. When the \<^verbatim>\<open>ServiceConfig\<close> is built and its port lies outside 1 to
  65535, the run raises \<^verbatim>\<open>ModelError\<close> from \<^verbatim>\<open>set_ports\<close>, after the calls of
  \<^verbatim>\<open>configure\<close> and \<^verbatim>\<open>set_location\<close>, with the status left at waiting.
\<close>

theorem config_changed_outcomes:
  assumes "in_domain e"
  shows
    "(readable e \<and> config e ''use_embedded_etcd'' \<noteq> None \<longrightarrow>
        on_config_changed e s = (Returned, s\<lparr>status := BlockedStatus ''Waiting for etcd''\<rparr>)
        \<or> (\<exists>cfg loc p.
              on_config_changed e s =
                (Returned, s\<lparr>snap_calls := snap_calls s @ [Configure cfg, SetLocation loc p],
                             ports := [port cfg], status := ActiveStatus\<rparr>)))
     \<and> (\<forall>st b x.
          etcd_cfg e = Inr (Some st) \<and> backend_cfg e = Inr b
          \<and> config e ''prometheus_target_port'' = Some (PStr x) \<and> int_of_str x = None \<longrightarrow>
          on_config_changed e s =
            (Raised (ValueError x), s\<lparr>status := WaitingStatus ''Configuring AMS''\<rparr>))
     \<and> (\<forall>st b m x.
          etcd_cfg e = Inr (Some st) \<and> backend_cfg e = Inr b \<and> metrics_cfg e = Inr m
          \<and> config e ''port'' = Some (PStr x) \<and> int_of_str x = None \<longrightarrow>
          on_config_changed e s =
            (Raised (ValueError x), s\<lparr>status := WaitingStatus ''Configuring AMS''\<rparr>))
     \<and> (\<forall>st cfg loc p.
          etcd_cfg e = Inr (Some st) \<and> service_cfg e st = Inr cfg
          \<and> config e ''location'' = Some loc \<and> config e ''port'' = Some p
          \<and> \<not> (1 \<le> port cfg \<and> port cfg \<le> 65535) \<longrightarrow>
          fst (on_config_changed e s) = Raised (ModelError (port cfg))
          \<and> status (snd (on_config_changed e s)) = WaitingStatus ''Configuring AMS''
          \<and> snap_calls (snd (on_config_changed e s))
              = snap_calls s @ [Configure cfg, SetLocation loc p])"
proof (intro conjI impI allI)
  assume a: "readable e \<and> config e ''use_embedded_etcd'' \<noteq> None"
  then obtain r where r: "etcd_cfg e = Inr r" using etcd_cfg_total by blast
  show "on_config_changed e s = (Returned, s\<lparr>status := BlockedStatus ''Waiting for etcd''\<rparr>)
      \<or> (\<exists>cfg loc p.
            on_config_changed e s =
              (Returned, s\<lparr>snap_calls := snap_calls s @ [Configure cfg, SetLocation loc p],
                           ports := [port cfg], status := ActiveStatus\<rparr>))"
  proof (cases r)
    case None
    with r show ?thesis by (simp add: on_config_changed_blocked)
  next
    case (Some st)
    with r a on_config_changed_ready [of e st s] show ?thesis by blast
  qed
next
  fix st b x
  assume "etcd_cfg e = Inr (Some st) \<and> backend_cfg e = Inr b
          \<and> config e ''prometheus_target_port'' = Some (PStr x) \<and> int_of_str x = None"
  then show "on_config_changed e s =
          (Raised (ValueError x), s\<lparr>status := WaitingStatus ''Configuring AMS''\<rparr>)"
    by (simp add: on_config_changed_bad_target_port)
next
  fix st b m x
  assume "etcd_cfg e = Inr (Some st) \<and> backend_cfg e = Inr b \<and> metrics_cfg e = Inr m
        \<and> config e ''port'' = Some (PStr x) \<and> int_of_str x = None"
  then show "on_config_changed e s =
          (Raised (ValueError x), s\<lparr>status := WaitingStatus ''Configuring AMS''\<rparr>)"
    by (simp add: on_config_changed_bad_port)
next
  fix st cfg loc p
  assume h: "etcd_cfg e = Inr (Some st) \<and> service_cfg e st = Inr cfg
          \<and> config e ''location'' = Some loc \<and> config e ''port'' = Some p
          \<and> \<not> (1 \<le> port cfg \<and> port cfg \<le> 65535)"
  then have "on_config_changed e s =
           (Raised (ModelError (port cfg)),
            s\<lparr>status := WaitingStatus ''Configuring AMS'',
              snap_calls := snap_calls s @ [Configure cfg, SetLocation loc p],
              ports := []\<rparr>)"
    by (intro on_config_changed_port_refused [of e st cfg loc p s]) simp_all
  then show "fst (on_config_changed e s) = Raised (ModelError (port cfg))"
    and "status (snd (on_config_changed e s)) = WaitingStatus ''Configuring AMS''"
    and "snap_calls (snd (on_config_changed e s))
           = snap_calls s @ [Configure cfg, SetLocation loc p]"
    by simp_all
qed

theorem config_changed_outcomes_witness:
  "(on_config_changed (sample_env (map_of sample_config) False Map.empty) idle =
      (Returned, idle\<lparr>status := BlockedStatus ''Waiting for etcd''\<rparr>)
    \<or> (\<exists>cfg loc p.
          on_config_changed (sample_env (map_of sample_config) False Map.empty) idle =
            (Returned, idle\<lparr>snap_calls := snap_calls idle @ [Configure cfg, SetLocation loc p],
                         ports := [port cfg], status := ActiveStatus\<rparr>)))
   \<and> on_config_changed
       (sample_env ((map_of sample_config)(''prometheus_target_port'' \<mapsto> PStr ''9.1''))
          False Map.empty) idle =
     (Raised (ValueError ''9.1''), idle\<lparr>status := WaitingStatus ''Configuring AMS''\<rparr>)
   \<and> on_config_changed
       (sample_env ((map_of sample_config)(''port'' \<mapsto> PStr ''80a'')) False Map.empty) idle =
     (Raised (ValueError ''80a''), idle\<lparr>status := WaitingStatus ''Configuring AMS''\<rparr>)
   \<and> fst (on_config_changed
            (sample_env ((map_of sample_config)(''port'' \<mapsto> PInt 0)) False Map.empty) idle)
     = Raised (ModelError 0)"
proof -
  let ?e = "sample_env (map_of sample_config) False Map.empty"
  let ?t = "sample_env ((map_of sample_config)(''prometheus_target_port'' \<mapsto> PStr ''9.1''))
              False Map.empty"
  let ?f = "sample_env ((map_of sample_config)(''port'' \<mapsto> PStr ''80a'')) False Map.empty"
  let ?z = "sample_env ((map_of sample_config)(''port'' \<mapsto> PInt 0)) False Map.empty"
  let ?st = "\<lparr>use_embedded = PBool True, servers = []\<rparr>"
  let ?b = "\<lparr>port_range = PStr ''10000-11000'', lxd_project = PStr ''ams'',
             force_tls12 = PBool False, use_network_acl = PBool True,
             metrics_server = None\<rparr>"
  let ?m = "\<lparr>target_ip = ''10.0.0.1'', target_port = 9104,
             tls_cert_path = PStr [], tls_key_path = PStr [],
             basic_auth_username = PStr [], basic_auth_password = PStr [],
             extra_labels = PStr [], metrics_path = PStr ''/internal/1.0/metrics''\<rparr>"
  let ?c = "\<lparr>ip = ''10.0.0.1'', port = 0, log_level = PStr ''info'',
             metrics = ?m, backend = ?b, store = ?st\<rparr>"
  have d: "in_domain ?e" "in_domain ?t" "in_domain ?f" "in_domain ?z"
    by (simp_all add: in_domain_def setting_in_domain_def short_ascii_def sample_env_def
        sample_config_def)
  have r: "readable ?e \<and> config ?e ''use_embedded_etcd'' \<noteq> None"
    by (simp add: sample_readable_plain) (simp add: sample_env_def sample_config_def)
  have 1: "on_config_changed ?e idle =
             (Returned, idle\<lparr>status := BlockedStatus ''Waiting for etcd''\<rparr>)
           \<or> (\<exists>cfg loc p.
                 on_config_changed ?e idle =
                   (Returned, idle\<lparr>snap_calls := snap_calls idle @ [Configure cfg, SetLocation loc p],
                                ports := [port cfg], status := ActiveStatus\<rparr>))"
    by (rule config_changed_outcomes [OF d(1), of idle, THEN conjunct1, rule_format, OF r])
  have st: "etcd_cfg ?t = Inr (Some ?st)"
    by (rule etcd_cfg_embedded) (simp_all add: sample_env_def sample_config_def)
  have bt: "backend_cfg ?t = Inr ?b"
    by (simp add: backend_cfg_def lookup_def and_then_def sample_env_def sample_config_def)
  have pt: "config ?t ''prometheus_target_port'' = Some (PStr ''9.1'')"
    by (simp add: sample_env_def)
  have it: "int_of_str ''9.1'' = None"
    by (simp add: int_of_str_def strip_def is_space_def is_digit_def)
  have 2: "on_config_changed ?t idle =
             (Raised (ValueError ''9.1''), idle\<lparr>status := WaitingStatus ''Configuring AMS''\<rparr>)"
    by (rule config_changed_outcomes
              [OF d(2), of idle, THEN conjunct2, THEN conjunct1, rule_format])
       (intro conjI; (rule st bt pt it))
  have sf: "etcd_cfg ?f = Inr (Some ?st)"
    by (rule etcd_cfg_embedded) (simp_all add: sample_env_def sample_config_def)
  have bf: "backend_cfg ?f = Inr ?b"
    by (simp add: backend_cfg_def lookup_def and_then_def sample_env_def sample_config_def)
  have mf: "metrics_cfg ?f = Inr ?m"
    by (simp add: metrics_cfg_def lookup_def and_then_def sample_env_def sample_config_def)
  have pf: "config ?f ''port'' = Some (PStr ''80a'')"
    by (simp add: sample_env_def)
  have "if": "int_of_str ''80a'' = None"
    by (simp add: int_of_str_def strip_def is_space_def is_digit_def)
  have 3: "on_config_changed ?f idle =
             (Raised (ValueError ''80a''), idle\<lparr>status := WaitingStatus ''Configuring AMS''\<rparr>)"
    by (rule config_changed_outcomes
              [OF d(3), of idle, THEN conjunct2, THEN conjunct2, THEN conjunct1, rule_format])
       (intro conjI; (rule sf bf mf pf "if"))
  have sz: "etcd_cfg ?z = Inr (Some ?st)"
    by (rule etcd_cfg_embedded) (simp_all add: sample_env_def sample_config_def)
  have cz: "service_cfg ?z ?st = Inr ?c"
    by (simp add: service_cfg_def backend_cfg_def metrics_cfg_def lookup_def and_then_def
        sample_env_def sample_config_def)
  have lz: "config ?z ''location'' = Some (PStr [])" "config ?z ''port'' = Some (PInt 0)"
    by (simp_all add: sample_env_def sample_config_def)
  have nz: "\<not> (1 \<le> port ?c \<and> port ?c \<le> 65535)"
    by simp
  have "fst (on_config_changed ?z idle) = Raised (ModelError (port ?c))"
    by (rule config_changed_outcomes
              [OF d(4), of idle, THEN conjunct2, THEN conjunct2, THEN conjunct2, rule_format,
               THEN conjunct1])
       (intro conjI; (rule sz cz lz nz))
  then have 4: "fst (on_config_changed ?z idle) = Raised (ModelError 0)"
    by simp
  from 1 2 3 4 show ?thesis by (intro conjI)
qed

section \<open>The metrics server endpoint\<close>

text \<open>
  Claim C9, as stated, fails for an absent setting: line 86 subscripts the configuration
  with \<^verbatim>\<open>metrics_server\<close>, which raises \<^verbatim>\<open>KeyError\<close> when the key is missing, so
  the run ends there and no \<^verbatim>\<open>ServiceConfig\<close> is built.
\<close>

theorem absent_metrics_server_raises:
  "backend_cfg (sample_env ((map_of sample_config)(''metrics_server'' := None)) False Map.empty)
     = Inl (KeyError ''metrics_server'')
   \<and> on_config_changed
       (sample_env ((map_of sample_config)(''metrics_server'' := None)) False Map.empty) idle =
     (Raised (KeyError ''metrics_server''), idle\<lparr>status := WaitingStatus ''Configuring AMS''\<rparr>)"
  by (simp add: on_config_changed_def etcd_cfg_def is_ready_def service_cfg_def
      backend_cfg_def metrics_cfg_def apply_cfg_def lookup_def and_then_def
      sample_env_def sample_config_def idle_def)

text \<open>
  Claim C9, amended. Let the four backend settings be present. If \<^verbatim>\<open>metrics_server\<close> is
  present with a true value, the backend configuration's \<^verbatim>\<open>metrics_server\<close> is
  \<^verbatim>\<open>influxdb:\<close> followed by the value as an f-string formats it; for a non-empty string
  that is the string itself. If it is present with a false value, such as the empty string,
  the backend configuration has no \<^verbatim>\<open>metrics_server\<close>. If the key is absent, building
  the backend configuration raises \<^verbatim>\<open>KeyError\<close>. The backend configuration of every
  \<^verbatim>\<open>ServiceConfig\<close> the handler builds is this one.
\<close>

theorem metrics_server_endpoint:
  assumes "config e ''port_range'' = Some pr" "config e ''lxd_project'' = Some lp"
    "config e ''force_tls12'' = Some ft" "config e ''use_network_acl'' = Some na"
  shows "(\<forall>v. config e ''metrics_server'' = Some v \<longrightarrow>
            backend_cfg e =
              Inr \<lparr>port_range = pr, lxd_project = lp, force_tls12 = ft, use_network_acl = na,
                   metrics_server =
                     (if truthy v then Some (''influxdb:'' @ py_str v) else None)\<rparr>)
     \<and> (\<forall>x. config e ''metrics_server'' = Some (PStr x) \<and> x \<noteq> [] \<longrightarrow>
            map_sum id metrics_server (backend_cfg e) = Inr (Some (''influxdb:'' @ x)))
     \<and> (config e ''metrics_server'' = Some (PStr []) \<longrightarrow>
            map_sum id metrics_server (backend_cfg e) = Inr None)
     \<and> (config e ''metrics_server'' = None \<longrightarrow>
            backend_cfg e = Inl (KeyError ''metrics_server''))
     \<and> (\<forall>st cfg. service_cfg e st = Inr cfg \<longrightarrow> backend_cfg e = Inr (backend cfg))"
proof (intro conjI allI impI)
  fix v assume "config e ''metrics_server'' = Some v"
  with assms show "backend_cfg e =
              Inr \<lparr>port_range = pr, lxd_project = lp, force_tls12 = ft, use_network_acl = na,
                   metrics_server =
                     (if truthy v then Some (''influxdb:'' @ py_str v) else None)\<rparr>"
    by (rule backend_cfg_value)
next
  fix x assume "config e ''metrics_server'' = Some (PStr x) \<and> x \<noteq> []"
  with assms show "map_sum id metrics_server (backend_cfg e) = Inr (Some (''influxdb:'' @ x))"
    by (simp add: backend_cfg_value)
next
  assume "config e ''metrics_server'' = Some (PStr [])"
  with assms show "map_sum id metrics_server (backend_cfg e) = Inr None"
    by (simp add: backend_cfg_value)
next
  assume "config e ''metrics_server'' = None"
  with assms show "backend_cfg e = Inl (KeyError ''metrics_server'')"
    by (rule backend_cfg_absent)
next
  fix st cfg assume "service_cfg e st = Inr cfg"
  then show "backend_cfg e = Inr (backend cfg)"
    by (auto simp: service_cfg_def and_then_def split: sum.splits)
qed

theorem metrics_server_endpoint_witness:
  "backend_cfg (sample_env ((map_of sample_config)(''metrics_server'' \<mapsto> PStr ''10.0.0.9:8086''))
                  False Map.empty)
     = Inr \<lparr>port_range = PStr ''10000-11000'', lxd_project = PStr ''ams'',
            force_tls12 = PBool False, use_network_acl = PBool True,
            metrics_server = Some ''influxdb:10.0.0.9:8086''\<rparr>
   \<and> map_sum id metrics_server (backend_cfg (sample_env (map_of sample_config) False Map.empty))
     = Inr None
   \<and> backend_cfg (sample_env ((map_of sample_config)(''metrics_server'' := None)) False Map.empty)
     = Inl (KeyError ''metrics_server'')"
proof -
  let ?e = "sample_env ((map_of sample_config)(''metrics_server'' \<mapsto> PStr ''10.0.0.9:8086''))
                  False Map.empty"
  let ?f = "sample_env (map_of sample_config) False Map.empty"
  let ?g = "sample_env ((map_of sample_config)(''metrics_server'' := None)) False Map.empty"
  have he: "config ?e ''port_range'' = Some (PStr ''10000-11000'')"
    "config ?e ''lxd_project'' = Some (PStr ''ams'')"
    "config ?e ''force_tls12'' = Some (PBool False)"
    "config ?e ''use_network_acl'' = Some (PBool True)"
    by (simp_all add: sample_env_def sample_config_def)
  have hf: "config ?f ''port_range'' = Some (PStr ''10000-11000'')"
    "config ?f ''lxd_project'' = Some (PStr ''ams'')"
    "config ?f ''force_tls12'' = Some (PBool False)"
    "config ?f ''use_network_acl'' = Some (PBool True)"
    by (simp_all add: sample_env_def sample_config_def)
  have hg: "config ?g ''port_range'' = Some (PStr ''10000-11000'')"
    "config ?g ''lxd_project'' = Some (PStr ''ams'')"
    "config ?g ''force_tls12'' = Some (PBool False)"
    "config ?g ''use_network_acl'' = Some (PBool True)"
    by (simp_all add: sample_env_def sample_config_def)
  have me: "config ?e ''metrics_server'' = Some (PStr ''10.0.0.9:8086'')"
    by (simp add: sample_env_def)
  have mf: "config ?f ''metrics_server'' = Some (PStr [])"
    by (simp add: sample_env_def sample_config_def)
  have mg: "config ?g ''metrics_server'' = None"
    by (simp add: sample_env_def)
  note t = metrics_server_endpoint
  from t [OF he, THEN conjunct1, rule_format, OF me]
  have 1: "backend_cfg ?e
     = Inr \<lparr>port_range = PStr ''10000-11000'', lxd_project = PStr ''ams'',
            force_tls12 = PBool False, use_network_acl = PBool True,
            metrics_server = Some ''influxdb:10.0.0.9:8086''\<rparr>"
    by simp
  have 2: "map_sum id metrics_server (backend_cfg ?f) = Inr None"
    by (rule t [OF hf, THEN conjunct2, THEN conjunct2, THEN conjunct1, rule_format, OF mf])
  have 3: "backend_cfg ?g = Inl (KeyError ''metrics_server'')"
    by (rule t [OF hg, THEN conjunct2, THEN conjunct2, THEN conjunct2, THEN conjunct1,
                rule_format, OF mg])
  from 1 2 3 show ?thesis by (intro conjI)
qed

section \<open>Certificate issuance\<close>

text \<open>
  Claim C3. If the hostname, the public address or the private address is empty,
  \<^verbatim>\<open>_generate_selfsigned_cert\<close> raises an exception (the failure the specification calls
  \<^verbatim>\<open>InvalidIdentity\<close>) and generates no key: the count of generated keys is unchanged.
  In particular the call with \<^verbatim>\<open>""\<close>, \<^verbatim>\<open>"1.2.3.4"\<close>, \<^verbatim>\<open>"10.0.0.1"\<close> fails.
\<close>

theorem empty_identity_rejected:
  assumes "hostname = [] \<or> pub_ip = [] \<or> priv_ip = []"
  shows "generate_selfsigned_cert hostname pub_ip priv_ip n =
           (Inl (Exception (if hostname = [] then ''A hostname is required''
                            else if pub_ip = [] then ''A public IP is required''
                            else ''A private IP is required'')), n)
     \<and> (\<exists>msg. fst (generate_selfsigned_cert hostname pub_ip priv_ip n) = Inl (Exception msg))
     \<and> snd (generate_selfsigned_cert hostname pub_ip priv_ip n) = n"
  using assms by (auto simp: generate_selfsigned_cert_def)

theorem empty_identity_rejected_witness:
  "generate_selfsigned_cert [] ''1.2.3.4'' ''10.0.0.1'' 0 =
     (Inl (Exception ''A hostname is required''), 0)"
  using empty_identity_rejected [of "[]" "''1.2.3.4''" "''10.0.0.1''" 0] by simp

text \<open>
  Claim C4. For non-empty hostname and addresses the call returns a certificate and a
  key. The certificate answers a signing request for the returned key whose subject is the
  hostname, whose DNS names are the public address, the private address and the hostname,
  no more and no fewer, and whose IP names are the two addresses, no more and no fewer. The
  certificate verifies against the authority certificate made in the same call, from the
  first key the call generated and the hostname.
\<close>

theorem leaf_certificate_identities:
  assumes "hostname \<noteq> []" "pub_ip \<noteq> []" "priv_ip \<noteq> []"
  shows "\<exists>cert k n'.
           generate_selfsigned_cert hostname pub_ip priv_ip n = (Inr (cert, k), n')
           \<and> csr_key (cert_csr cert) = k
           \<and> csr_subject (cert_csr cert) = hostname
           \<and> sans_dns (cert_csr cert) = [pub_ip, priv_ip, hostname]
           \<and> set (sans_dns (cert_csr cert)) = {pub_ip, priv_ip, hostname}
           \<and> sans_ip (cert_csr cert) = [pub_ip, priv_ip]
           \<and> set (sans_ip (cert_csr cert)) = {pub_ip, priv_ip}
           \<and> verifies_against cert (generate_ca (fst (generate_private_key 4096 n)) hostname)"
  by (simp add: generate_selfsigned_cert_value [OF assms] verifies_against_def
      generate_ca_def generate_private_key_def)

theorem leaf_certificate_identities_witness:
  "\<exists>cert k n'.
     generate_selfsigned_cert ''ams0'' ''1.2.3.4'' ''10.0.0.1'' 0 = (Inr (cert, k), n')
     \<and> csr_key (cert_csr cert) = k
     \<and> csr_subject (cert_csr cert) = ''ams0''
     \<and> sans_dns (cert_csr cert) = [''1.2.3.4'', ''10.0.0.1'', ''ams0'']
     \<and> set (sans_dns (cert_csr cert)) = {''1.2.3.4'', ''10.0.0.1'', ''ams0''}
     \<and> sans_ip (cert_csr cert) = [''1.2.3.4'', ''10.0.0.1'']
     \<and> set (sans_ip (cert_csr cert)) = {''1.2.3.4'', ''10.0.0.1''}
     \<and> verifies_against cert (generate_ca (fst (generate_private_key 4096 0)) ''ams0'')"
  using leaf_certificate_identities [of "''ams0''" "''1.2.3.4''" "''10.0.0.1''" 0] by simp

text \<open>
  Claim C8. For non-empty hostname and addresses the call generates two keys, both of
  4096 bits. The first is the authority's key: the authority certificate is made from it,
  with the hostname as subject, and it signs the leaf certificate. The second is the leaf
  key: it differs from the authority's key, the signing request is for it, and it is the
  key returned beside the leaf certificate.
\<close>

theorem ca_key_then_leaf_key:
  assumes "hostname \<noteq> []" "pub_ip \<noteq> []" "priv_ip \<noteq> []"
  shows "\<exists>cert k.
           generate_selfsigned_cert hostname pub_ip priv_ip n = (Inr (cert, k), n + 2)
           \<and> ca_key (cert_ca cert) = fst (generate_private_key 4096 n)
           \<and> ca_key (cert_ca cert) = PrivateKey 4096 n
           \<and> cert_ca cert = generate_ca (ca_key (cert_ca cert)) hostname
           \<and> ca_subject (cert_ca cert) = hostname
           \<and> k = fst (generate_private_key 4096 (n + 1))
           \<and> k = PrivateKey 4096 (n + 1)
           \<and> k \<noteq> ca_key (cert_ca cert)
           \<and> csr_key (cert_csr cert) = k
           \<and> signing_key cert = ca_key (cert_ca cert)"
  by (simp add: generate_selfsigned_cert_value [OF assms] generate_ca_def
      generate_private_key_def)

theorem ca_key_then_leaf_key_witness:
  "\<exists>cert k.
     generate_selfsigned_cert ''ams0'' ''1.2.3.4'' ''10.0.0.1'' 0 = (Inr (cert, k), 2)
     \<and> ca_key (cert_ca cert) = PrivateKey 4096 0
     \<and> ca_subject (cert_ca cert) = ''ams0''
     \<and> k = PrivateKey 4096 1
     \<and> csr_key (cert_csr cert) = k
     \<and> signing_key cert = ca_key (cert_ca cert)"
  using ca_key_then_leaf_key [of "''ams0''" "''1.2.3.4''" "''10.0.0.1''" 0] by auto

section \<open>The relation-joined handler and its certificate\<close>

text \<open>
  Claim C10. The relation-joined handler calls \<^verbatim>\<open>_generate_selfsigned_cert\<close> with the
  public address in the place of the hostname. When both addresses are non-empty, the
  certificate it hands to the service and publishes on the relation has an authority and
  a signing request whose subject is the public address, DNS names that are the public
  address, the private address and the public address again, hence the two addresses as a
  set, and the two addresses as IP names. The handler's result depends on the two
  addresses only: no other name of the unit enters it.
\<close>

theorem lxd_joined_public_ip_as_hostname:
  "(public_ip e \<noteq> [] \<and> private_ip e \<noteq> [] \<longrightarrow>
      (\<exists>cert k.
         generate_selfsigned_cert (public_ip e) (public_ip e) (private_ip e) (keys_generated s)
           = (Inr (cert, k), keys_generated s + 2)
         \<and> on_lxd_integrator_joined e s =
             (Returned,
              s\<lparr>keys_generated := keys_generated s + 2,
                snap_calls := snap_calls s @ [SetupLxd cert k],
                relation_data := (relation_data s)(''client_certificates'' \<mapsto> [cert])\<rparr>)
         \<and> ca_subject (cert_ca cert) = public_ip e
         \<and> csr_subject (cert_csr cert) = public_ip e
         \<and> sans_dns (cert_csr cert) = [public_ip e, private_ip e, public_ip e]
         \<and> set (sans_dns (cert_csr cert)) = {public_ip e, private_ip e}
         \<and> set (sans_ip (cert_csr cert)) = {public_ip e, private_ip e}))
   \<and> (\<forall>e'. public_ip e' = public_ip e \<and> private_ip e' = private_ip e \<longrightarrow>
          on_lxd_integrator_joined e' s = on_lxd_integrator_joined e s)"
proof (intro conjI impI allI)
  assume a: "public_ip e \<noteq> [] \<and> private_ip e \<noteq> []"
  let ?n = "keys_generated s"
  let ?k = "PrivateKey 4096 (Suc ?n)"
  let ?cert = "Certificate
                 (CSR ?k (public_ip e) [public_ip e, private_ip e, public_ip e]
                      [public_ip e, private_ip e])
                 (CA (PrivateKey 4096 ?n) (public_ip e)) (PrivateKey 4096 ?n)"
  have g: "generate_selfsigned_cert (public_ip e) (public_ip e) (private_ip e) ?n
             = (Inr (?cert, ?k), ?n + 2)"
    using a by (simp add: generate_selfsigned_cert_value)
  have h: "on_lxd_integrator_joined e s =
             (Returned,
              s\<lparr>keys_generated := ?n + 2,
                snap_calls := snap_calls s @ [SetupLxd ?cert ?k],
                relation_data := (relation_data s)(''client_certificates'' \<mapsto> [?cert])\<rparr>)"
    by (simp add: on_lxd_integrator_joined_def g)
  have d: "set (sans_dns (cert_csr ?cert)) = {public_ip e, private_ip e}"
    by auto
  have i: "set (sans_ip (cert_csr ?cert)) = {public_ip e, private_ip e}"
    by simp
  show "\<exists>cert k.
         generate_selfsigned_cert (public_ip e) (public_ip e) (private_ip e) (keys_generated s)
           = (Inr (cert, k), keys_generated s + 2)
         \<and> on_lxd_integrator_joined e s =
             (Returned,
              s\<lparr>keys_generated := keys_generated s + 2,
                snap_calls := snap_calls s @ [SetupLxd cert k],
                relation_data := (relation_data s)(''client_certificates'' \<mapsto> [cert])\<rparr>)
         \<and> ca_subject (cert_ca cert) = public_ip e
         \<and> csr_subject (cert_csr cert) = public_ip e
         \<and> sans_dns (cert_csr cert) = [public_ip e, private_ip e, public_ip e]
         \<and> set (sans_dns (cert_csr cert)) = {public_ip e, private_ip e}
         \<and> set (sans_ip (cert_csr cert)) = {public_ip e, private_ip e}"
    apply (rule exI [of _ ?cert])
    apply (rule exI [of _ ?k])
    apply (intro conjI)
          apply (rule g)
         apply (rule h)
        apply simp
       apply simp
      apply simp
     apply (rule d)
    apply (rule i)
    done
next
  fix e' :: env
  assume "public_ip e' = public_ip e \<and> private_ip e' = private_ip e"
  then show "on_lxd_integrator_joined e' s = on_lxd_integrator_joined e s"
    by (simp add: on_lxd_integrator_joined_def)
qed

theorem lxd_joined_public_ip_as_hostname_witness:
  "(\<exists>cert k.
      on_lxd_integrator_joined (sample_env Map.empty False Map.empty) idle =
        (Returned,
         idle\<lparr>keys_generated := 2,
              snap_calls := [SetupLxd cert k],
              relation_data := [''client_certificates'' \<mapsto> [cert]]\<rparr>)
      \<and> ca_subject (cert_ca cert) = ''1.2.3.4''
      \<and> csr_subject (cert_csr cert) = ''1.2.3.4''
      \<and> set (sans_dns (cert_csr cert)) = {''1.2.3.4'', ''10.0.0.1''}
      \<and> set (sans_ip (cert_csr cert)) = {''1.2.3.4'', ''10.0.0.1''})
   \<and> on_lxd_integrator_joined (sample_env (map_of sample_config) True Map.empty) idle
     = on_lxd_integrator_joined (sample_env Map.empty False Map.empty) idle"
proof -
  let ?e = "sample_env Map.empty False Map.empty"
  let ?f = "sample_env (map_of sample_config) True Map.empty"
  have a: "public_ip ?e \<noteq> [] \<and> private_ip ?e \<noteq> []"
    by (simp add: sample_env_def)
  have p: "public_ip ?e = ''1.2.3.4''" "private_ip ?e = ''10.0.0.1''"
    by (simp_all add: sample_env_def)
  have q: "keys_generated idle + 2 = 2" "snap_calls idle @ xs = xs"
    "relation_data idle = Map.empty" for xs
    by (simp_all add: idle_def)
  have f: "public_ip ?f = public_ip ?e \<and> private_ip ?f = private_ip ?e"
    by (simp add: sample_env_def)
  from lxd_joined_public_ip_as_hostname [of ?e idle, THEN conjunct1, rule_format, OF a]
  obtain cert k where c:
    "on_lxd_integrator_joined ?e idle =
       (Returned,
        idle\<lparr>keys_generated := keys_generated idle + 2,
             snap_calls := snap_calls idle @ [SetupLxd cert k],
             relation_data := (relation_data idle)(''client_certificates'' \<mapsto> [cert])\<rparr>)"
    "ca_subject (cert_ca cert) = public_ip ?e"
    "csr_subject (cert_csr cert) = public_ip ?e"
    "set (sans_dns (cert_csr cert)) = {public_ip ?e, private_ip ?e}"
    "set (sans_ip (cert_csr cert)) = {public_ip ?e, private_ip ?e}"
    by (elim exE conjE)
  have 1: "\<exists>cert k.
      on_lxd_integrator_joined ?e idle =
        (Returned,
         idle\<lparr>keys_generated := 2,
              snap_calls := [SetupLxd cert k],
              relation_data := [''client_certificates'' \<mapsto> [cert]]\<rparr>)
      \<and> ca_subject (cert_ca cert) = ''1.2.3.4''
      \<and> csr_subject (cert_csr cert) = ''1.2.3.4''
      \<and> set (sans_dns (cert_csr cert)) = {''1.2.3.4'', ''10.0.0.1''}
      \<and> set (sans_ip (cert_csr cert)) = {''1.2.3.4'', ''10.0.0.1''}"
    apply (rule exI [of _ cert])
    apply (rule exI [of _ k])
    using c unfolding p q
    apply (intro conjI)
        apply assumption+
    done
  have 2: "on_lxd_integrator_joined ?f idle = on_lxd_integrator_joined ?e idle"
    by (rule lxd_joined_public_ip_as_hostname [of ?e idle, THEN conjunct2, rule_format, OF f])
  from 1 2 show ?thesis by (rule conjI)
qed

end
